theory Spec2Isabelle
  imports Complex_Main
begin

section \<open>Values the program handles\<close>

text \<open>
  The API payloads are JSON documents as Python's \<^verbatim>\<open>response.json()\<close> yields them:
  \<^verbatim>\<open>None\<close>, booleans, ints, floats, strings, lists and dicts. A dict is an association
  list read through \<open>map_of\<close>. Floats are idealised as rationals: IEEE-754 rounding is
  outside this development.
\<close>

datatype json =
    JNull
  | JBool bool
  | JInt int
  | JFloat rat
  | JStr string
  | JArr "json list"
  | JObj "(string \<times> json) list"

text \<open>
  The exceptions that occur in \<^verbatim>\<open>data_manager.py\<close>. \<open>IntegrityError\<close> and
  \<open>OperationalError\<close> are the two subclasses of \<^verbatim>\<open>SQLAlchemyError\<close> that the
  storage layer raises here (constraint violation, failed statement); the others are
  Python's own and are caught only by \<^verbatim>\<open>except Exception\<close>.
\<close>

datatype exn =
    IntegrityError
  | OperationalError
  | AttributeError
  | KeyError
  | TypeError
  | ValueError
  | IndexError

definition is_SQLAlchemyError :: "exn \<Rightarrow> bool" where
  "is_SQLAlchemyError e = (e = IntegrityError \<or> e = OperationalError)"

subsection \<open>Python's dynamic operations on JSON values\<close>

text \<open>\<^verbatim>\<open>not x\<close> is the negation of this.\<close>

fun py_truthy :: "json \<Rightarrow> bool" where
  "py_truthy JNull = False"
| "py_truthy (JBool b) = b"
| "py_truthy (JInt i) = (i \<noteq> 0)"
| "py_truthy (JFloat r) = (r \<noteq> 0)"
| "py_truthy (JStr s) = (s \<noteq> [])"
| "py_truthy (JArr xs) = (xs \<noteq> [])"
| "py_truthy (JObj kvs) = (kvs \<noteq> [])"

text \<open>\<^verbatim>\<open>d.get(k, default)\<close>: only a dict has the method.\<close>

fun py_get :: "json \<Rightarrow> string \<Rightarrow> json \<Rightarrow> exn + json" where
  "py_get (JObj kvs) k d = Inr (case map_of kvs k of Some v \<Rightarrow> v | None \<Rightarrow> d)"
| "py_get _ k d = Inl AttributeError"

text \<open>\<^verbatim>\<open>d['id']\<close> with a string key.\<close>

fun py_getitem :: "json \<Rightarrow> string \<Rightarrow> exn + json" where
  "py_getitem (JObj kvs) k = (case map_of kvs k of Some v \<Rightarrow> Inr v | None \<Rightarrow> Inl KeyError)"
| "py_getitem _ k = Inl TypeError"

text \<open>\<^verbatim>\<open>volumes[0]\<close>.\<close>

fun py_index0 :: "json \<Rightarrow> exn + json" where
  "py_index0 (JArr []) = Inl IndexError"
| "py_index0 (JArr (x # xs)) = Inr x"
| "py_index0 (JStr []) = Inl IndexError"
| "py_index0 (JStr (c # cs)) = Inr (JStr [c])"
| "py_index0 (JObj kvs) = Inl KeyError"
| "py_index0 _ = Inl TypeError"

text \<open>What \<^verbatim>\<open>for item in x\<close> runs over.\<close>

fun py_iter :: "json \<Rightarrow> exn + json list" where
  "py_iter (JArr xs) = Inr xs"
| "py_iter (JObj kvs) = Inr (map (\<lambda>kv. JStr (fst kv)) kvs)"
| "py_iter (JStr s) = Inr (map (\<lambda>c. JStr [c]) s)"
| "py_iter _ = Inl TypeError"

section \<open>The relational schema of \<^verbatim>\<open>models.py\<close>\<close>

text \<open>
  One record per mapped class, the fields named \<open>Class_column\<close>. A column that receives
  a payload value holds the \<open>json\<close> it was given, \<open>JNull\<close> being SQL NULL; the coercion a
  database driver applies to a value of another type is not modelled. Columns the
  program never writes (\<^verbatim>\<open>canonical_id\<close>, \<^verbatim>\<open>observed_at\<close>, \<^verbatim>\<open>ended_at\<close>) are left out.
\<close>

record Source =
  Source_id :: nat
  Source_name :: string
  Source_url :: string

record Series =
  Series_id :: nat
  Series_title :: json
  Series_publisher :: json
  Series_start_year :: "int option"
  Series_cover_url :: json

record Issue =
  Issue_id :: nat
  Issue_series_id :: nat
  Issue_issue_number :: json
  Issue_cover_date :: json
  Issue_cover_url :: json

record SourceXref =
  SourceXref_id :: nat
  SourceXref_source_id :: nat
  SourceXref_entity_type :: string
  SourceXref_entity_id :: nat
  SourceXref_external_id :: string

record PriceSnapshot =
  PriceSnapshot_id :: nat
  PriceSnapshot_issue_id :: nat
  PriceSnapshot_source_id :: nat
  PriceSnapshot_payload :: json

record GradedPrice =
  GradedPrice_id :: nat
  GradedPrice_snapshot_id :: nat
  GradedPrice_grade_label :: string
  GradedPrice_fmv_usd :: json
  GradedPrice_conservative_value_usd :: rat

record MarketListing =
  MarketListing_id :: nat
  MarketListing_snapshot_id :: nat
  MarketListing_listing_id :: json
  MarketListing_title :: json
  MarketListing_url :: json
  MarketListing_price_usd :: json
  MarketListing_currency :: json
  MarketListing_condition :: json

record tables =
  source_tbl :: "Source list"
  series_tbl :: "Series list"
  issue_tbl :: "Issue list"
  source_xref_tbl :: "SourceXref list"
  price_snapshot_tbl :: "PriceSnapshot list"
  graded_price_tbl :: "GradedPrice list"
  market_listing_tbl :: "MarketListing list"

datatype entity =
    ESource Source
  | ESeries Series
  | EIssue Issue
  | ESourceXref SourceXref
  | EPriceSnapshot PriceSnapshot
  | EGradedPrice GradedPrice
  | EMarketListing MarketListing

text \<open>
  An INSERT checks the \<^verbatim>\<open>nullable=False\<close> columns that can receive a payload value and
  the \<^verbatim>\<open>unique\<close> / \<^verbatim>\<open>UniqueConstraint\<close> declarations; a violation is an
  \<open>IntegrityError\<close>. Foreign keys are not checked: the program only writes keys it has
  just read or generated.
\<close>

fun insert_entity :: "entity \<Rightarrow> tables \<Rightarrow> exn + tables" where
  "insert_entity (ESource r) t =
     (if list_ex (\<lambda>x. Source_name x = Source_name r) (source_tbl t) then Inl IntegrityError
      else Inr (t\<lparr>source_tbl := source_tbl t @ [r]\<rparr>))"
| "insert_entity (ESeries r) t =
     (if Series_title r = JNull then Inl IntegrityError
      else Inr (t\<lparr>series_tbl := series_tbl t @ [r]\<rparr>))"
| "insert_entity (EIssue r) t =
     (if Issue_issue_number r = JNull then Inl IntegrityError
      else if list_ex (\<lambda>x. Issue_series_id x = Issue_series_id r
                          \<and> Issue_issue_number x = Issue_issue_number r) (issue_tbl t)
      then Inl IntegrityError
      else Inr (t\<lparr>issue_tbl := issue_tbl t @ [r]\<rparr>))"
| "insert_entity (ESourceXref r) t =
     (if list_ex (\<lambda>x. SourceXref_source_id x = SourceXref_source_id r
                     \<and> SourceXref_entity_type x = SourceXref_entity_type r
                     \<and> SourceXref_external_id x = SourceXref_external_id r) (source_xref_tbl t)
      then Inl IntegrityError
      else Inr (t\<lparr>source_xref_tbl := source_xref_tbl t @ [r]\<rparr>))"
| "insert_entity (EPriceSnapshot r) t =
     Inr (t\<lparr>price_snapshot_tbl := price_snapshot_tbl t @ [r]\<rparr>)"
| "insert_entity (EGradedPrice r) t =
     Inr (t\<lparr>graded_price_tbl := graded_price_tbl t @ [r]\<rparr>)"
| "insert_entity (EMarketListing r) t =
     (if MarketListing_listing_id r = JNull \<or> MarketListing_title r = JNull
      then Inl IntegrityError
      else Inr (t\<lparr>market_listing_tbl := market_listing_tbl t @ [r]\<rparr>))"

text \<open>A flush sends the pending objects in the order they were added.\<close>

fun insert_all :: "entity list \<Rightarrow> tables \<Rightarrow> exn + tables" where
  "insert_all [] t = Inr t"
| "insert_all (e # es) t =
     (case insert_entity e t of Inl x \<Rightarrow> Inl x | Inr t' \<Rightarrow> insert_all es t')"

section \<open>The world the program runs in\<close>

text \<open>
  The SQLAlchemy session: \<open>committed\<close> is what the database holds, \<open>txn\<close> what the open
  transaction sees (committed rows and flushed ones), \<open>pending\<close> the objects given to
  \<^verbatim>\<open>db.add\<close> and not flushed yet. \<open>next_id\<close> holds one autoincrement counter per table
  (in the order of \<open>entity\<close>); a counter is not wound back by a rollback. Every
  statement sent to the database (a query, a flush, a commit, a refresh) takes the
  next number from \<open>ops\<close> and fails with \<open>OperationalError\<close> when \<open>faults\<close> holds of
  that number: this is how a connection failure at any point is put into a run.
\<close>

record session =
  committed :: tables
  txn :: tables
  pending :: "entity list"
  next_Source_id :: nat
  next_Series_id :: nat
  next_Issue_id :: nat
  next_SourceXref_id :: nat
  next_PriceSnapshot_id :: nat
  next_GradedPrice_id :: nat
  next_MarketListing_id :: nat
  ops :: nat
  faults :: "nat \<Rightarrow> bool"

record request =
  req_url :: string
  req_params :: "(string \<times> string) list"
  req_headers :: "(string \<times> string) list"

text \<open>
  What one \<^verbatim>\<open>requests.get(...)\<close> followed by \<^verbatim>\<open>raise_for_status()\<close> and \<^verbatim>\<open>json()\<close>
  does: a decoded body, an \<^verbatim>\<open>HTTPError\<close> with its status code, another
  \<^verbatim>\<open>RequestException\<close> (connection error, timeout), or an exception that is not a
  \<^verbatim>\<open>RequestException\<close>.
\<close>

datatype http_outcome =
    Response_ok json
  | HTTPError nat
  | RequestException
  | Other_exception exn

text \<open>
  Keys of the shared \<^verbatim>\<open>api_cache\<close>: \<open>KReq\<close> for the string
  \<^verbatim>\<open>f"{url}?{str(sorted(params.items()))}"\<close>, which is determined by the URL and the set
  of parameter items, and \<open>KArgs\<close> for the argument tuple a \<^verbatim>\<open>@cached\<close> function is
  called with.
\<close>

datatype cache_key =
    KReq string "(string \<times> string) set"
  | KArgs "string list"

text \<open>
  \<open>net n r\<close> is the outcome of request \<open>r\<close> when \<open>n\<close> requests were sent before it;
  \<open>request_log\<close> lists the requests sent and \<open>sleeps\<close> the arguments of
  \<^verbatim>\<open>time.sleep\<close>, in seconds, both oldest first. The cache is a map: its expiry after
  3600 seconds and its eviction beyond 1024 entries are not modelled. The last four
  fields are the Python built-ins the program calls on payload values: \<^verbatim>\<open>str(x)\<close>,
  \<^verbatim>\<open>int(s)\<close> and \<^verbatim>\<open>float(s)\<close> of a string (\<open>None\<close> for \<^verbatim>\<open>ValueError\<close>), and the
  format \<^verbatim>\<open>f"{x:.1f}"\<close>. They are parameters: every theorem holds whatever they compute.
\<close>

record world =
  db :: session
  api_cache :: "cache_key \<rightharpoonup> json"
  net :: "nat \<Rightarrow> request \<Rightarrow> http_outcome"
  request_log :: "request list"
  sleeps :: "nat list"
  environ :: "string \<rightharpoonup> string"
  str_of :: "json \<Rightarrow> string"
  int_of_str :: "string \<Rightarrow> int option"
  float_of_str :: "string \<Rightarrow> rat option"
  fmt_1f :: "rat \<Rightarrow> string"

subsection \<open>Statements that may raise\<close>

text \<open>
  A statement maps the world to a result and the new world; \<open>Inl e\<close> is the exception
  \<open>e\<close> raised. \<open>bind\<close> is sequencing, \<open>try_except\<close> a \<^verbatim>\<open>try\<close> block with its handler.
\<close>

type_synonym 'a stmt = "world \<Rightarrow> (exn + 'a) \<times> world"

definition ret :: "'a \<Rightarrow> 'a stmt" where
  "ret x = (\<lambda>w. (Inr x, w))"

definition raise :: "exn \<Rightarrow> 'a stmt" where
  "raise e = (\<lambda>w. (Inl e, w))"

definition lift :: "exn + 'a \<Rightarrow> 'a stmt" where
  "lift r = (\<lambda>w. (r, w))"

definition bind :: "'a stmt \<Rightarrow> ('a \<Rightarrow> 'b stmt) \<Rightarrow> 'b stmt" where
  "bind m f = (\<lambda>w. case m w of (Inl e, w') \<Rightarrow> (Inl e, w') | (Inr x, w') \<Rightarrow> f x w')"

definition try_except :: "'a stmt \<Rightarrow> (exn \<Rightarrow> 'a stmt) \<Rightarrow> 'a stmt" where
  "try_except m h = (\<lambda>w. case m w of (Inl e, w') \<Rightarrow> h e w' | (Inr x, w') \<Rightarrow> (Inr x, w'))"

section \<open>The HTTP fetch layer\<close>

text \<open>\<^verbatim>\<open>requests.get(url, params=params, headers=headers, timeout=15)\<close>.\<close>

definition http_get :: "request \<Rightarrow> world \<Rightarrow> http_outcome \<times> world" where
  "http_get r w = (net w (length (request_log w)) r, w\<lparr>request_log := request_log w @ [r]\<rparr>)"

definition sleep :: "nat \<Rightarrow> world \<Rightarrow> world" where
  "sleep n w = w\<lparr>sleeps := sleeps w @ [n]\<rparr>"

text \<open>
  The body of \<^verbatim>\<open>for attempt in range(3)\<close> in \<^verbatim>\<open>_make_api_request\<close>, over the attempt
  numbers still to run. \<open>Inr (Some data)\<close> is \<^verbatim>\<open>return data\<close>; \<open>Inr None\<close> is the loop
  left by \<^verbatim>\<open>break\<close> or by running out of attempts.
\<close>

fun retry_loop :: "nat list \<Rightarrow> request \<Rightarrow> cache_key \<Rightarrow> world \<Rightarrow> (exn + json option) \<times> world" where
  "retry_loop [] r key w = (Inr None, w)"
| "retry_loop (attempt # rest) r key w =
     (case http_get r w of
        (Response_ok data, w1) \<Rightarrow> (Inr (Some data), w1\<lparr>api_cache := (api_cache w1)(key \<mapsto> data)\<rparr>)
      | (HTTPError status_code, w1) \<Rightarrow>
          if status_code \<in> {401, 403, 404} then (Inr None, w1)
          else retry_loop rest r key (sleep (2 ^ attempt) w1)
      | (RequestException, w1) \<Rightarrow> retry_loop rest r key (sleep (2 ^ attempt) w1)
      | (Other_exception e, w1) \<Rightarrow> (Inl e, w1))"

text \<open>\<^verbatim>\<open>_make_api_request\<close> (an Isabelle name cannot start with an underscore).\<close>

definition make_api_request ::
  "string \<Rightarrow> (string \<times> string) list \<Rightarrow> (string \<times> string) list \<Rightarrow> json stmt" where
  "make_api_request url params headers w =
     (let cache_key = KReq url (set params) in
      case api_cache w cache_key of
        Some data \<Rightarrow> (Inr data, w)
      | None \<Rightarrow>
          (case retry_loop [0, 1, 2] \<lparr>req_url = url, req_params = params, req_headers = headers\<rparr>
                  cache_key w of
             (Inl e, w') \<Rightarrow> (Inl e, w')
           | (Inr (Some data), w') \<Rightarrow> (Inr data, w')
           | (Inr None, w') \<Rightarrow> (Inr (JObj []), w')))"

section \<open>The session operations\<close>

text \<open>One statement sent to the database.\<close>

definition statement :: "unit stmt" where
  "statement w =
     (let s = db w in
      (if faults s (ops s) then Inl OperationalError else Inr (),
       w\<lparr>db := s\<lparr>ops := Suc (ops s)\<rparr>\<rparr>))"

text \<open>The INSERTs of a flush; the transaction's view changes only if all of them pass.\<close>

definition flush_pending :: "unit stmt" where
  "flush_pending w =
     (case insert_all (pending (db w)) (txn (db w)) of
        Inl e \<Rightarrow> (Inl e, w)
      | Inr t \<Rightarrow> (Inr (), w\<lparr>db := (db w)\<lparr>txn := t, pending := []\<rparr>\<rparr>))"

definition db_flush :: "unit stmt" where
  "db_flush = bind statement (\<lambda>_. flush_pending)"

definition db_commit :: "unit stmt" where
  "db_commit =
     bind statement (\<lambda>_. bind flush_pending (\<lambda>_ w.
       (Inr (), w\<lparr>db := (db w)\<lparr>committed := txn (db w)\<rparr>\<rparr>)))"

definition db_rollback :: "unit stmt" where
  "db_rollback w = (Inr (), w\<lparr>db := (db w)\<lparr>txn := committed (db w), pending := []\<rparr>\<rparr>)"

text \<open>\<^verbatim>\<open>db.refresh(obj)\<close> reloads a row that exists: one SELECT.\<close>

definition db_refresh :: "unit stmt" where
  "db_refresh = statement"

text \<open>
  \<^verbatim>\<open>db.query(...)\<close>: the session autoflushes, then the SELECT reads the transaction's
  view. \<^verbatim>\<open>.first()\<close> has no ORDER BY in the source; rows are taken in insertion order.
\<close>

definition db_query :: "tables stmt" where
  "db_query = bind statement (\<lambda>_. bind flush_pending (\<lambda>_ w. (Inr (txn (db w)), w)))"

text \<open>
  \<^verbatim>\<open>db.add(Class(...))\<close>. The object carries from here on the key the flush will give
  it; the source reads \<^verbatim>\<open>.id\<close> only after \<^verbatim>\<open>flush()\<close> or \<^verbatim>\<open>commit()\<close>.
\<close>

definition db_add_Source :: "string \<Rightarrow> string \<Rightarrow> Source stmt" where
  "db_add_Source name url w =
     (let s = db w;
          r = \<lparr>Source_id = next_Source_id s, Source_name = name, Source_url = url\<rparr>
      in (Inr r, w\<lparr>db := s\<lparr>pending := pending s @ [ESource r],
                             next_Source_id := Suc (next_Source_id s)\<rparr>\<rparr>))"

definition db_add_Series :: "json \<Rightarrow> json \<Rightarrow> int option \<Rightarrow> json \<Rightarrow> Series stmt" where
  "db_add_Series title publisher start_year cover_url w =
     (let s = db w;
          r = \<lparr>Series_id = next_Series_id s, Series_title = title,
               Series_publisher = publisher, Series_start_year = start_year,
               Series_cover_url = cover_url\<rparr>
      in (Inr r, w\<lparr>db := s\<lparr>pending := pending s @ [ESeries r],
                             next_Series_id := Suc (next_Series_id s)\<rparr>\<rparr>))"

definition db_add_Issue :: "nat \<Rightarrow> json \<Rightarrow> json \<Rightarrow> json \<Rightarrow> Issue stmt" where
  "db_add_Issue series_id issue_number cover_date cover_url w =
     (let s = db w;
          r = \<lparr>Issue_id = next_Issue_id s, Issue_series_id = series_id,
               Issue_issue_number = issue_number, Issue_cover_date = cover_date,
               Issue_cover_url = cover_url\<rparr>
      in (Inr r, w\<lparr>db := s\<lparr>pending := pending s @ [EIssue r],
                             next_Issue_id := Suc (next_Issue_id s)\<rparr>\<rparr>))"

definition db_add_SourceXref :: "nat \<Rightarrow> string \<Rightarrow> nat \<Rightarrow> string \<Rightarrow> SourceXref stmt" where
  "db_add_SourceXref source_id entity_type entity_id external_id w =
     (let s = db w;
          r = \<lparr>SourceXref_id = next_SourceXref_id s, SourceXref_source_id = source_id,
               SourceXref_entity_type = entity_type, SourceXref_entity_id = entity_id,
               SourceXref_external_id = external_id\<rparr>
      in (Inr r, w\<lparr>db := s\<lparr>pending := pending s @ [ESourceXref r],
                             next_SourceXref_id := Suc (next_SourceXref_id s)\<rparr>\<rparr>))"

definition db_add_PriceSnapshot :: "nat \<Rightarrow> nat \<Rightarrow> json \<Rightarrow> PriceSnapshot stmt" where
  "db_add_PriceSnapshot issue_id source_id payload w =
     (let s = db w;
          r = \<lparr>PriceSnapshot_id = next_PriceSnapshot_id s, PriceSnapshot_issue_id = issue_id,
               PriceSnapshot_source_id = source_id, PriceSnapshot_payload = payload\<rparr>
      in (Inr r, w\<lparr>db := s\<lparr>pending := pending s @ [EPriceSnapshot r],
                             next_PriceSnapshot_id := Suc (next_PriceSnapshot_id s)\<rparr>\<rparr>))"

definition db_add_GradedPrice :: "nat \<Rightarrow> string \<Rightarrow> json \<Rightarrow> rat \<Rightarrow> GradedPrice stmt" where
  "db_add_GradedPrice snapshot_id grade_label fmv_usd conservative_value_usd w =
     (let s = db w;
          r = \<lparr>GradedPrice_id = next_GradedPrice_id s, GradedPrice_snapshot_id = snapshot_id,
               GradedPrice_grade_label = grade_label, GradedPrice_fmv_usd = fmv_usd,
               GradedPrice_conservative_value_usd = conservative_value_usd\<rparr>
      in (Inr r, w\<lparr>db := s\<lparr>pending := pending s @ [EGradedPrice r],
                             next_GradedPrice_id := Suc (next_GradedPrice_id s)\<rparr>\<rparr>))"

definition db_add_MarketListing ::
  "nat \<Rightarrow> json \<Rightarrow> json \<Rightarrow> json \<Rightarrow> json \<Rightarrow> json \<Rightarrow> json \<Rightarrow> MarketListing stmt" where
  "db_add_MarketListing snapshot_id listing_id title url price_usd currency condition w =
     (let s = db w;
          r = \<lparr>MarketListing_id = next_MarketListing_id s,
               MarketListing_snapshot_id = snapshot_id, MarketListing_listing_id = listing_id,
               MarketListing_title = title, MarketListing_url = url,
               MarketListing_price_usd = price_usd, MarketListing_currency = currency,
               MarketListing_condition = condition\<rparr>
      in (Inr r, w\<lparr>db := s\<lparr>pending := pending s @ [EMarketListing r],
                             next_MarketListing_id := Suc (next_MarketListing_id s)\<rparr>\<rparr>))"

subsection \<open>The filters of the queries\<close>

text \<open>
  SQL \<^verbatim>\<open>LIKE\<close>, as \<open>like pattern text\<close>: \<^verbatim>\<open>%\<close> stands for any run of characters and
  \<^verbatim>\<open>_\<close> for any one character; there is no escape character (SQLite, the default engine of
  \<^verbatim>\<open>models.py\<close>). \<^verbatim>\<open>ilike\<close> compares the lower-cased column with the lower-cased
  pattern, letters A to Z only; a NULL or non-text column matches nothing.
\<close>

fun like :: "string \<Rightarrow> string \<Rightarrow> bool" where
  "like [] s = (s = [])"
| "like (p # ps) [] = (p = CHR ''%'' \<and> like ps [])"
| "like (p # ps) (c # t) =
     (if p = CHR ''%'' then like ps (c # t) \<or> like (p # ps) t
      else (p = CHR ''_'' \<or> p = c) \<and> like ps t)"

definition lower :: "char \<Rightarrow> char" where
  "lower c = (let n = (of_char c :: nat) in if 65 \<le> n \<and> n \<le> 90 then char_of (n + 32) else c)"

fun ilike :: "json \<Rightarrow> string \<Rightarrow> bool" where
  "ilike (JStr s) pat = like (map lower pat) (map lower s)"
| "ilike _ pat = False"

text \<open>\<^verbatim>\<open>db.query(Source).filter(Source.name == name).first()\<close>\<close>

definition query_Source_by_name :: "string \<Rightarrow> Source option stmt" where
  "query_Source_by_name name =
     bind db_query (\<lambda>t. ret (find (\<lambda>x. Source_name x = name) (source_tbl t)))"

text \<open>\<^verbatim>\<open>db.query(Series).filter(Series.title.ilike(f"%{series_title}%")).first()\<close>\<close>

definition query_Series_by_title :: "string \<Rightarrow> Series option stmt" where
  "query_Series_by_title series_title =
     bind db_query (\<lambda>t.
       ret (find (\<lambda>x. ilike (Series_title x) (''%'' @ series_title @ ''%'')) (series_tbl t)))"

text \<open>
  \<^verbatim>\<open>db.query(Issue).join(Series).filter(Series.title.ilike(f"%{series_title}%"),
  Issue.issue_number == issue_number).first()\<close>: the join is on the foreign key.
\<close>

definition query_Issue_by_title_number :: "string \<Rightarrow> string \<Rightarrow> Issue option stmt" where
  "query_Issue_by_title_number series_title issue_number =
     bind db_query (\<lambda>t.
       ret (find (\<lambda>i. list_ex (\<lambda>x. Series_id x = Issue_series_id i
                                  \<and> ilike (Series_title x) (''%'' @ series_title @ ''%''))
                             (series_tbl t)
                      \<and> Issue_issue_number i = JStr issue_number)
                 (issue_tbl t)))"

text \<open>
  \<^verbatim>\<open>db.query(SourceXref).filter_by(source_id=..., entity_type=..., entity_id=...).first()\<close>
\<close>

definition query_SourceXref_by_entity :: "nat \<Rightarrow> string \<Rightarrow> nat \<Rightarrow> SourceXref option stmt" where
  "query_SourceXref_by_entity source_id entity_type entity_id =
     bind db_query (\<lambda>t.
       ret (find (\<lambda>x. SourceXref_source_id x = source_id
                     \<and> SourceXref_entity_type x = entity_type
                     \<and> SourceXref_entity_id x = entity_id)
                 (source_xref_tbl t)))"

section \<open>Source management\<close>

definition get_or_create_source :: "string \<Rightarrow> string \<Rightarrow> Source stmt" where
  "get_or_create_source name url =
     try_except
       (bind (query_Source_by_name name) (\<lambda>source.
          case source of
            Some s \<Rightarrow> ret s
          | None \<Rightarrow>
              bind (db_add_Source name url) (\<lambda>s.
              bind db_commit (\<lambda>_.
              bind db_refresh (\<lambda>_.
              ret s)))))
       (\<lambda>e. if is_SQLAlchemyError e then bind db_rollback (\<lambda>_. raise e) else raise e)"

section \<open>Comic Vine\<close>

definition API_USER_AGENT :: string where
  "API_USER_AGENT = ''RooComicAgent/1.0''"

text \<open>\<^verbatim>\<open>int(x)\<close> of a payload value, and of a string column.\<close>

definition py_int :: "json \<Rightarrow> int stmt" where
  "py_int x w =
     ((case x of
         JInt i \<Rightarrow> Inr i
       | JFloat r \<Rightarrow> Inr (if 0 \<le> r then \<lfloor>r\<rfloor> else \<lceil>r\<rceil>)
       | JBool b \<Rightarrow> Inr (if b then 1 else 0)
       | JStr s \<Rightarrow> (case int_of_str w s of Some i \<Rightarrow> Inr i | None \<Rightarrow> Inl ValueError)
       | _ \<Rightarrow> Inl TypeError), w)"

definition py_str :: "json \<Rightarrow> string stmt" where
  "py_str x w = (Inr (str_of w x), w)"

definition search_comicvine_volume :: "string \<Rightarrow> json stmt" where
  "search_comicvine_volume series_title w =
     (case environ w ''COMICVINE_KEY'' of
        None \<Rightarrow> (Inr (JArr []), w)
      | Some api_key \<Rightarrow>
          if api_key = [] then (Inr (JArr []), w)
          else
            bind (make_api_request ''https://comicvine.gamespot.com/api/search/''
                    [(''api_key'', api_key), (''format'', ''json''),
                     (''query'', series_title), (''resources'', ''volume'')]
                    [(''User-Agent'', API_USER_AGENT)])
                 (\<lambda>data. lift (py_get data ''results'' (JArr []))) w)"

definition get_comicvine_issues_for_volume :: "int \<Rightarrow> json stmt" where
  "get_comicvine_issues_for_volume volume_id w =
     (case environ w ''COMICVINE_KEY'' of
        None \<Rightarrow> (Inr (JArr []), w)
      | Some api_key \<Rightarrow>
          if api_key = [] then (Inr (JArr []), w)
          else
            bind (make_api_request ''https://comicvine.gamespot.com/api/issues/''
                    [(''api_key'', api_key), (''format'', ''json''),
                     (''filter'', ''volume:'' @ str_of w (JInt volume_id)),
                     (''sort'', ''issue_number:asc'')]
                    [(''User-Agent'', API_USER_AGENT)])
                 (\<lambda>data. lift (py_get data ''results'' (JArr []))) w)"

text \<open>
  The suite of the \<^verbatim>\<open>try\<close> statement of \<^verbatim>\<open>_get_or_create_series_from_comicvine\<close>
  (lines 150 to 166), for the candidate \<^verbatim>\<open>cv_volume = volumes[0]\<close>.
\<close>

definition create_series :: "string \<Rightarrow> json \<Rightarrow> Series option stmt" where
  "create_series series_title cv_volume =
     bind (lift (py_get cv_volume ''name'' (JStr series_title))) (\<lambda>title.
     bind (lift (py_get cv_volume ''publisher'' (JObj []))) (\<lambda>pub.
     bind (lift (py_get pub ''name'' JNull)) (\<lambda>publisher.
     bind (lift (py_get cv_volume ''start_year'' JNull)) (\<lambda>sy.
     bind (if py_truthy sy then bind (py_int sy) (\<lambda>y. ret (Some y)) else ret None)
       (\<lambda>start_year.
     bind (lift (py_get cv_volume ''image'' (JObj []))) (\<lambda>image.
     bind (lift (py_get image ''original_url'' JNull)) (\<lambda>cover_url.
     bind (db_add_Series title publisher start_year cover_url) (\<lambda>series.
     bind db_flush (\<lambda>_.
     bind (get_or_create_source ''Comic Vine'' ''https://comicvine.gamespot.com'')
       (\<lambda>cv_source.
     bind (lift (py_getitem cv_volume ''id'')) (\<lambda>cv_id.
     bind (py_str cv_id) (\<lambda>external_id.
     bind (db_add_SourceXref (Source_id cv_source) ''series'' (Series_id series)
             external_id) (\<lambda>xref.
     bind db_commit (\<lambda>_.
     ret (Some series)))))))))))))))"

text \<open>\<^verbatim>\<open>_get_or_create_series_from_comicvine\<close>\<close>

definition get_or_create_series_from_comicvine :: "string \<Rightarrow> Series option stmt" where
  "get_or_create_series_from_comicvine series_title =
     bind (query_Series_by_title series_title) (\<lambda>series.
     case series of
       Some s \<Rightarrow> ret (Some s)
     | None \<Rightarrow>
         bind (search_comicvine_volume series_title) (\<lambda>volumes.
         if \<not> py_truthy volumes then ret None
         else
           bind (lift (py_index0 volumes)) (\<lambda>cv_volume.
           try_except
             (create_series series_title cv_volume)
             (\<lambda>e. if is_SQLAlchemyError e then bind db_rollback (\<lambda>_. ret None)
                  else raise e))))"

text \<open>
  \<^verbatim>\<open>next((iss for iss in cv_issues if iss.get("issue_number") == issue_number), None)\<close>
\<close>

fun find_cv_issue :: "json list \<Rightarrow> string \<Rightarrow> exn + json option" where
  "find_cv_issue [] issue_number = Inr None"
| "find_cv_issue (iss # rest) issue_number =
     (case py_get iss ''issue_number'' JNull of
        Inl e \<Rightarrow> Inl e
      | Inr v \<Rightarrow> if v = JStr issue_number then Inr (Some iss)
                else find_cv_issue rest issue_number)"

text \<open>
  The suite of the \<^verbatim>\<open>try\<close> statement of \<^verbatim>\<open>_get_or_create_issue_for_series\<close>
  (lines 190 to 205).
\<close>

definition create_issue :: "Source \<Rightarrow> Series \<Rightarrow> string \<Rightarrow> json \<Rightarrow> Issue option stmt" where
  "create_issue cv_source series issue_number found_cv_issue =
     bind (lift (py_get found_cv_issue ''issue_number'' (JStr issue_number))) (\<lambda>number.
     bind (lift (py_get found_cv_issue ''cover_date'' JNull)) (\<lambda>cover_date.
     bind (lift (py_get found_cv_issue ''image'' (JObj []))) (\<lambda>image.
     bind (lift (py_get image ''original_url'' JNull)) (\<lambda>cover_url.
     bind (db_add_Issue (Series_id series) number cover_date cover_url) (\<lambda>issue.
     bind db_flush (\<lambda>_.
     bind (lift (py_getitem found_cv_issue ''id'')) (\<lambda>cv_id.
     bind (py_str cv_id) (\<lambda>external_id.
     bind (db_add_SourceXref (Source_id cv_source) ''issue'' (Issue_id issue)
             external_id) (\<lambda>xref.
     bind db_commit (\<lambda>_.
     ret (Some issue)))))))))))"

text \<open>\<^verbatim>\<open>_get_or_create_issue_for_series\<close>\<close>

definition get_or_create_issue_for_series :: "Series \<Rightarrow> string \<Rightarrow> Issue option stmt" where
  "get_or_create_issue_for_series series issue_number =
     bind (get_or_create_source ''Comic Vine'' ''https://comicvine.gamespot.com'') (\<lambda>cv_source.
     bind (query_SourceXref_by_entity (Source_id cv_source) ''series'' (Series_id series))
       (\<lambda>xref_series.
     case xref_series of
       None \<Rightarrow> ret None
     | Some xs \<Rightarrow>
         bind (py_int (JStr (SourceXref_external_id xs))) (\<lambda>volume_id.
         bind (get_comicvine_issues_for_volume volume_id) (\<lambda>cv_issues.
         bind (lift (py_iter cv_issues)) (\<lambda>items.
         bind (lift (find_cv_issue items issue_number)) (\<lambda>found.
         case found of
           None \<Rightarrow> ret None
         | Some found_cv_issue \<Rightarrow>
             if \<not> py_truthy found_cv_issue then ret None
             else
               try_except
                 (create_issue cv_source series issue_number found_cv_issue)
                 (\<lambda>e. if is_SQLAlchemyError e then bind db_rollback (\<lambda>_. ret None)
                      else raise e)))))))"

definition get_or_create_issue_from_comicvine :: "string \<Rightarrow> string \<Rightarrow> Issue option stmt" where
  "get_or_create_issue_from_comicvine series_title issue_number =
     try_except
       (bind (query_Issue_by_title_number series_title issue_number) (\<lambda>issue.
        case issue of
          Some i \<Rightarrow> ret (Some i)
        | None \<Rightarrow>
            bind (get_or_create_series_from_comicvine series_title) (\<lambda>series.
            case series of
              None \<Rightarrow> ret None
            | Some s \<Rightarrow> get_or_create_issue_for_series s issue_number)))
       (\<lambda>e. if is_SQLAlchemyError e then bind db_rollback (\<lambda>_. ret None)
            else bind db_rollback (\<lambda>_. ret None))"

section \<open>GoCollect and eBay\<close>

text \<open>
  \<^verbatim>\<open>@cached(cache=api_cache)\<close>: the stored value for the argument tuple if there is one,
  else the function's result, stored before it is returned (also when it is empty).
\<close>

definition cached :: "cache_key \<Rightarrow> json stmt \<Rightarrow> json stmt" where
  "cached k f w =
     (case api_cache w k of
        Some v \<Rightarrow> (Inr v, w)
      | None \<Rightarrow> bind f (\<lambda>v w'. (Inr v, w'\<lparr>api_cache := (api_cache w')(k \<mapsto> v)\<rparr>)) w)"

definition get_gocollect_pricing :: "string \<Rightarrow> string \<Rightarrow> json stmt" where
  "get_gocollect_pricing comic_id grade =
     cached (KArgs [comic_id, grade]) (\<lambda>w.
       case environ w ''GOCOLLECT_KEY'' of
         None \<Rightarrow> (Inr (JObj []), w)
       | Some api_key \<Rightarrow>
           if api_key = [] then (Inr (JObj []), w)
           else make_api_request (''https://api.gocollect.com/v1/insights/item/'' @ comic_id)
                  [(''grade'', grade)]
                  [(''Authorization'', ''Bearer '' @ api_key), (''User-Agent'', API_USER_AGENT)]
                  w)"

definition search_ebay_listings :: "string \<Rightarrow> json stmt" where
  "search_ebay_listings query =
     cached (KArgs [query]) (\<lambda>w.
       case environ w ''EBAY_TOKEN'' of
         None \<Rightarrow> (Inr (JArr []), w)
       | Some api_key \<Rightarrow>
           if api_key = [] then (Inr (JArr []), w)
           else
             bind (make_api_request ''https://api.ebay.com/buy/browse/v1/item_summary/search''
                     [(''q'', query), (''category_ids'', ''63''), (''limit'', ''50'')]
                     [(''Authorization'', ''Bearer '' @ api_key),
                      (''X-EBAY-C-MARKETPLACE-ID'', ''EBAY_US'')])
                  (\<lambda>data. lift (py_get data ''itemSummaries'' (JArr []))) w)"

text \<open>\<^verbatim>\<open>float(x)\<close> of a payload value.\<close>

definition py_float :: "json \<Rightarrow> rat stmt" where
  "py_float x w =
     ((case x of
         JInt i \<Rightarrow> Inr (of_int i)
       | JFloat r \<Rightarrow> Inr r
       | JBool b \<Rightarrow> Inr (if b then 1 else 0)
       | JStr s \<Rightarrow> (case float_of_str w s of Some r \<Rightarrow> Inr r | None \<Rightarrow> Inl ValueError)
       | _ \<Rightarrow> Inl TypeError), w)"

text \<open>
  \<^verbatim>\<open>issue.series.title\<close>: the relationship is resolved in the session, without a
  statement of its own; an issue whose series is gone has \<^verbatim>\<open>issue.series\<close> \<^verbatim>\<open>None\<close>.
\<close>

definition issue_series_title :: "Issue \<Rightarrow> json stmt" where
  "issue_series_title issue w =
     (case find (\<lambda>x. Series_id x = Issue_series_id issue) (series_tbl (txn (db w))) of
        None \<Rightarrow> (Inl AttributeError, w)
      | Some s \<Rightarrow> (Inr (Series_title s), w))"

text \<open>
  \<^verbatim>\<open>_update_gocollect_pricing\<close>. The log messages that format
  \<^verbatim>\<open>issue.series.title\<close> are kept as the reads they make.
\<close>

definition update_gocollect_pricing :: "Issue \<Rightarrow> string \<Rightarrow> unit stmt" where
  "update_gocollect_pricing issue grade_str =
     bind (get_or_create_source ''GoCollect'' ''https://gocollect.com'') (\<lambda>gocollect_source.
     bind (query_SourceXref_by_entity (Source_id gocollect_source) ''issue'' (Issue_id issue))
       (\<lambda>xref.
     case xref of
       None \<Rightarrow> bind (issue_series_title issue) (\<lambda>_. ret ())
     | Some x \<Rightarrow>
         try_except
           (bind (get_gocollect_pricing (SourceXref_external_id x) grade_str) (\<lambda>pricing_data.
            if \<not> py_truthy pricing_data then ret ()
            else
              bind (lift (py_get pricing_data ''value'' JNull)) (\<lambda>fmv.
              if \<not> py_truthy fmv then bind (issue_series_title issue) (\<lambda>_. ret ())
              else
                bind (db_add_PriceSnapshot (Issue_id issue) (Source_id gocollect_source)
                        pricing_data) (\<lambda>snapshot.
                bind db_flush (\<lambda>_.
                bind (py_float fmv) (\<lambda>fmv_float.
                let conservative_value = fmv_float * (8 / 10) in
                bind (db_add_GradedPrice (PriceSnapshot_id snapshot) grade_str fmv
                        conservative_value) (\<lambda>graded_price.
                bind db_commit (\<lambda>_.
                bind (issue_series_title issue) (\<lambda>_.
                ret ())))))))))
           (\<lambda>e. if is_SQLAlchemyError e then db_rollback else db_rollback)))"

text \<open>The body of \<^verbatim>\<open>for item in ebay_listings\<close>.\<close>

fun add_listings :: "nat \<Rightarrow> json list \<Rightarrow> unit stmt" where
  "add_listings snapshot_id [] = ret ()"
| "add_listings snapshot_id (item # rest) =
     bind (lift (py_get item ''price'' (JObj []))) (\<lambda>price_info.
     bind (lift (py_get item ''itemId'' JNull)) (\<lambda>listing_id.
     bind (lift (py_get item ''title'' JNull)) (\<lambda>title.
     bind (lift (py_get item ''itemWebUrl'' JNull)) (\<lambda>url.
     bind (lift (py_get price_info ''value'' JNull)) (\<lambda>price_usd.
     bind (lift (py_get price_info ''currency'' JNull)) (\<lambda>currency.
     bind (lift (py_get item ''condition'' JNull)) (\<lambda>condition.
     bind (db_add_MarketListing snapshot_id listing_id title url price_usd currency condition)
       (\<lambda>listing.
     add_listings snapshot_id rest))))))))"

definition dquote :: string where
  "dquote = [CHR 0x22]"

text \<open>\<^verbatim>\<open>_update_ebay_listings\<close>\<close>

definition update_ebay_listings :: "Issue \<Rightarrow> unit stmt" where
  "update_ebay_listings issue =
     try_except
       (bind (issue_series_title issue) (\<lambda>title.
        bind (py_str title) (\<lambda>title_str.
        bind (py_str (Issue_issue_number issue)) (\<lambda>number_str.
        let search_query = dquote @ title_str @ dquote @ '' '' @ dquote @ number_str @ dquote in
        bind (search_ebay_listings search_query) (\<lambda>ebay_listings.
        if \<not> py_truthy ebay_listings then ret ()
        else
          bind (get_or_create_source ''eBay'' ''https://www.ebay.com'') (\<lambda>ebay_source.
          bind (db_add_PriceSnapshot (Issue_id issue) (Source_id ebay_source)
                  (JObj [(''listings'', ebay_listings)])) (\<lambda>snapshot.
          bind db_flush (\<lambda>_.
          bind (lift (py_iter ebay_listings)) (\<lambda>items.
          bind (add_listings (PriceSnapshot_id snapshot) items) (\<lambda>_.
          bind db_commit (\<lambda>_.
          bind (issue_series_title issue) (\<lambda>_.
          ret ()))))))))))))
       (\<lambda>e. if is_SQLAlchemyError e then db_rollback else db_rollback)"

definition update_pricing_for_issue :: "Issue \<Rightarrow> rat \<Rightarrow> unit stmt" where
  "update_pricing_for_issue issue grade_guess w =
     (let grade_str = fmt_1f w grade_guess in
      bind (update_gocollect_pricing issue grade_str) (\<lambda>_.
      update_ebay_listings issue) w)"

section \<open>What the spec says of a stored listing\<close>






section \<open>Concrete worlds\<close>

text \<open>
  An empty database with a fault schedule, and a world around it with the three API
  credentials set and an empty cache. \<open>str_digit\<close> and \<open>int_digit\<close> agree with Python's
  \<^verbatim>\<open>str\<close> and \<^verbatim>\<open>int\<close> on strings and on the integers 0 to 9, which is all the runs
  below pass to them.
\<close>

definition empty_tables :: tables where
  "empty_tables =
     \<lparr>source_tbl = [], series_tbl = [], issue_tbl = [], source_xref_tbl = [],
      price_snapshot_tbl = [], graded_price_tbl = [], market_listing_tbl = []\<rparr>"

definition new_session :: "(nat \<Rightarrow> bool) \<Rightarrow> session" where
  "new_session f =
     \<lparr>committed = empty_tables, txn = empty_tables, pending = [],
      next_Source_id = 1, next_Series_id = 1, next_Issue_id = 1, next_SourceXref_id = 1,
      next_PriceSnapshot_id = 1, next_GradedPrice_id = 1, next_MarketListing_id = 1,
      ops = 0, faults = f\<rparr>"

definition str_digit :: "json \<Rightarrow> string" where
  "str_digit x =
     (case x of
        JStr s \<Rightarrow> s
      | JInt i \<Rightarrow> (if 0 \<le> i \<and> i < 10 then [char_of (48 + nat i)] else ''?'')
      | _ \<Rightarrow> ''?'')"

definition int_digit :: "string \<Rightarrow> int option" where
  "int_digit s =
     (case s of
        [c] \<Rightarrow> (let n = (of_char c :: nat) in
                if 48 \<le> n \<and> n < 58 then Some (int n - 48) else None)
      | _ \<Rightarrow> None)"

definition new_world :: "(nat \<Rightarrow> request \<Rightarrow> http_outcome) \<Rightarrow> (nat \<Rightarrow> bool) \<Rightarrow> world" where
  "new_world n f =
     \<lparr>db = new_session f, api_cache = Map.empty, net = n, request_log = [], sleeps = [],
      environ = [''COMICVINE_KEY'' \<mapsto> ''k'', ''GOCOLLECT_KEY'' \<mapsto> ''k'', ''EBAY_TOKEN'' \<mapsto> ''k''],
      str_of = str_digit, int_of_str = int_digit, float_of_str = (\<lambda>s. None),
      fmt_1f = (\<lambda>r. ''8.0'')\<rparr>"

definition no_faults :: "nat \<Rightarrow> bool" where
  "no_faults n = False"

text \<open>
  The four services. The catalog answers the search with one volume named
  \<open>Spider-Man\<close> (external id 1) and the issue listing with its issue number 1 (external
  id 7); the marketplace answers with \<open>listings\<close>; the valuation service answers every
  other URL with a value of 100.
\<close>

definition services :: "json \<Rightarrow> nat \<Rightarrow> request \<Rightarrow> http_outcome" where
  "services listings n r =
     (if req_url r = ''https://comicvine.gamespot.com/api/search/''
      then Response_ok (JObj [(''results'',
             JArr [JObj [(''id'', JInt 1), (''name'', JStr ''Spider-Man'')]])])
      else if req_url r = ''https://comicvine.gamespot.com/api/issues/''
      then Response_ok (JObj [(''results'',
             JArr [JObj [(''id'', JInt 7), (''issue_number'', JStr ''1'')]])])
      else if req_url r = ''https://api.ebay.com/buy/browse/v1/item_summary/search''
      then Response_ok (JObj [(''itemSummaries'', listings)])
      else Response_ok (JObj [(''value'', JInt 100)]))"

definition fault_at :: "nat \<Rightarrow> nat \<Rightarrow> bool" where
  "fault_at k n = (n = k)"

text \<open>A server that answers every request with status \<open>code\<close>.\<close>

definition always_status :: "nat \<Rightarrow> nat \<Rightarrow> request \<Rightarrow> http_outcome" where
  "always_status code n r = HTTPError code"

text \<open>A server that fails twice with status 500 and then answers \<open>data\<close>.\<close>

definition third_time_lucky :: "json \<Rightarrow> nat \<Rightarrow> request \<Rightarrow> http_outcome" where
  "third_time_lucky data n r = (if n < 2 then HTTPError 500 else Response_ok data)"

text \<open>
  The issue the catalog above leads to, a marketplace answer with one listing, and the
  world after a first reconciliation of title \<open>Spider\<close>, issue number 1, from an empty
  database: it takes the statements 0 to 10.
\<close>

definition issue1 :: Issue where
  "issue1 =
     \<lparr>Issue_id = 1, Issue_series_id = 1, Issue_issue_number = JStr ''1'',
      Issue_cover_date = JNull, Issue_cover_url = JNull\<rparr>"

definition one_listing :: json where
  "one_listing = JArr [JObj [(''itemId'', JStr ''i1''), (''title'', JStr ''Spider-Man 1'')]]"

definition reconciled :: "json \<Rightarrow> (nat \<Rightarrow> bool) \<Rightarrow> world" where
  "reconciled listings f =
     snd (get_or_create_issue_from_comicvine ''Spider'' ''1'' (new_world (services listings) f))"



section \<open>Properties of the fetch layer\<close>

text \<open>
  C7. An uncached fetch whose first attempt returns HTTP status 401, 403 or 404 leaves
  the retry loop at once: exactly one request is sent, \<^verbatim>\<open>time.sleep\<close> is not called,
  and the call returns the empty object, as it does when the attempts are exhausted.
\<close>

theorem C7_no_retry_on_401_403_404:
  assumes "api_cache w (KReq url (set params)) = None"
    and "net w (length (request_log w))
           \<lparr>req_url = url, req_params = params, req_headers = headers\<rparr> = HTTPError status_code"
    and "status_code = 401 \<or> status_code = 403 \<or> status_code = 404"
  shows "make_api_request url params headers w =
           (Inr (JObj []),
            w\<lparr>request_log := request_log w
                 @ [\<lparr>req_url = url, req_params = params, req_headers = headers\<rparr>]\<rparr>)
         \<and> sleeps (snd (make_api_request url params headers w)) = sleeps w
         \<and> length (request_log (snd (make_api_request url params headers w)))
             = Suc (length (request_log w))"
  using assms by (auto simp: make_api_request_def http_get_def)

text \<open>The theorem at a server that answers 404, from an empty cache.\<close>

theorem C7_no_retry_witness:
  "api_cache (new_world (always_status 404) no_faults) (KReq ''u'' (set [])) = None
   \<and> always_status 404 0 \<lparr>req_url = ''u'', req_params = [], req_headers = []\<rparr> = HTTPError 404
   \<and> make_api_request ''u'' [] [] (new_world (always_status 404) no_faults) =
       (Inr (JObj []),
        (new_world (always_status 404) no_faults)
          \<lparr>request_log := [\<lparr>req_url = ''u'', req_params = [], req_headers = []\<rparr>]\<rparr>)
   \<and> sleeps (snd (make_api_request ''u'' [] [] (new_world (always_status 404) no_faults))) = []"
  using C7_no_retry_on_401_403_404
          [of "new_world (always_status 404) no_faults" "''u''" "[]" "[]" 404]
  by (simp add: new_world_def always_status_def)

text \<open>
  The retry loop raises only what the request itself raises outside
  \<^verbatim>\<open>RequestException\<close>, and ends without a payload when no attempt succeeds.
\<close>

lemma retry_loop_no_raise:
  assumes "\<And>k e. k < length as \<Longrightarrow> net w (length (request_log w) + k) r \<noteq> Other_exception e"
  shows "\<exists>x. fst (retry_loop as r key w) = Inr x"
  using assms
proof (induction as arbitrary: w)
  case Nil
  then show ?case by simp
next
  case (Cons a as)
  have h0: "\<And>e. net w (length (request_log w)) r \<noteq> Other_exception e"
    using Cons.prems [of 0] by simp
  have step: "\<And>w' :: world. net w' = net w \<Longrightarrow> length (request_log w') = Suc (length (request_log w))
      \<Longrightarrow> \<exists>x. fst (retry_loop as r key w') = Inr x"
  proof -
    fix w' :: world assume a: "net w' = net w" "length (request_log w') = Suc (length (request_log w))"
    show "\<exists>x. fst (retry_loop as r key w') = Inr x"
    proof (rule Cons.IH)
      fix k e assume "k < length as"
      then show "net w' (length (request_log w') + k) r \<noteq> Other_exception e"
        using Cons.prems [of "Suc k" e] a by simp
    qed
  qed
  show ?case
  proof (cases "net w (length (request_log w)) r")
    case (Response_ok d)
    then show ?thesis by (simp add: http_get_def)
  next
    case (HTTPError c)
    then show ?thesis using step [of "sleep (2 ^ a) (w\<lparr>request_log := request_log w @ [r]\<rparr>)"]
      by (simp add: http_get_def sleep_def)
  next
    case RequestException
    then show ?thesis using step [of "sleep (2 ^ a) (w\<lparr>request_log := request_log w @ [r]\<rparr>)"]
      by (simp add: http_get_def sleep_def)
  next
    case (Other_exception e)
    then show ?thesis using h0 by simp
  qed
qed

lemma retry_loop_exhausted:
  assumes "\<And>k e. k < length as \<Longrightarrow> net w (length (request_log w) + k) r \<noteq> Other_exception e"
    and "\<And>k d. k < length as \<Longrightarrow> net w (length (request_log w) + k) r \<noteq> Response_ok d"
  shows "fst (retry_loop as r key w) = Inr None"
  using assms
proof (induction as arbitrary: w)
  case Nil
  then show ?case by simp
next
  case (Cons a as)
  have h0: "\<And>e. net w (length (request_log w)) r \<noteq> Other_exception e"
    "\<And>d. net w (length (request_log w)) r \<noteq> Response_ok d"
    using Cons.prems(1) [of 0] Cons.prems(2) [of 0] by simp_all
  have step: "\<And>w' :: world. net w' = net w \<Longrightarrow> length (request_log w') = Suc (length (request_log w))
      \<Longrightarrow> fst (retry_loop as r key w') = Inr None"
  proof -
    fix w' :: world assume a: "net w' = net w" "length (request_log w') = Suc (length (request_log w))"
    show "fst (retry_loop as r key w') = Inr None"
    proof (rule Cons.IH)
      fix k e assume "k < length as"
      then show "net w' (length (request_log w') + k) r \<noteq> Other_exception e"
        using Cons.prems(1) [of "Suc k" e] a by simp
    next
      fix k d assume "k < length as"
      then show "net w' (length (request_log w') + k) r \<noteq> Response_ok d"
        using Cons.prems(2) [of "Suc k" d] a by simp
    qed
  qed
  show ?case
  proof (cases "net w (length (request_log w)) r")
    case (Response_ok d)
    then show ?thesis using h0 by simp
  next
    case (HTTPError c)
    then show ?thesis using step [of "sleep (2 ^ a) (w\<lparr>request_log := request_log w @ [r]\<rparr>)"]
      by (simp add: http_get_def sleep_def)
  next
    case RequestException
    then show ?thesis using step [of "sleep (2 ^ a) (w\<lparr>request_log := request_log w @ [r]\<rparr>)"]
      by (simp add: http_get_def sleep_def)
  next
    case (Other_exception e)
    then show ?thesis using h0 by simp
  qed
qed

text \<open>
  C8. Whatever the URL, parameters and headers: when the attempts meet only responses,
  HTTP errors and other request exceptions (connection errors, timeouts), the call
  returns a value and raises nothing; and when the cache has no entry and none of the
  three attempts succeeds, the value is the empty object.
\<close>

theorem C8_never_raises_for_transport_failure:
  assumes "\<forall>k<3. \<forall>e. net w (length (request_log w) + k)
              \<lparr>req_url = url, req_params = params, req_headers = headers\<rparr> \<noteq> Other_exception e"
  shows "(\<exists>data. fst (make_api_request url params headers w) = Inr data)
       \<and> (api_cache w (KReq url (set params)) = None
          \<and> (\<forall>k<3. \<forall>d. net w (length (request_log w) + k)
                \<lparr>req_url = url, req_params = params, req_headers = headers\<rparr> \<noteq> Response_ok d)
          \<longrightarrow> fst (make_api_request url params headers w) = Inr (JObj []))"
proof -
  let ?r = "\<lparr>req_url = url, req_params = params, req_headers = headers\<rparr>"
  let ?k = "KReq url (set params)"
  obtain res w' where rl: "retry_loop [0, 1, 2] ?r ?k w = (res, w')"
    by (cases "retry_loop [0, 1, 2] ?r ?k w")
  have m: "make_api_request url params headers w =
      (case api_cache w ?k of
         Some data \<Rightarrow> (Inr data, w)
       | None \<Rightarrow> (case res of Inl e \<Rightarrow> (Inl e, w') | Inr (Some data) \<Rightarrow> (Inr data, w')
                  | Inr None \<Rightarrow> (Inr (JObj []), w')))"
    unfolding make_api_request_def Let_def rl by (simp split: sum.splits option.splits)
  obtain x where x: "res = Inr x"
    using retry_loop_no_raise [of "[0, 1, 2]" w ?r ?k] assms rl by auto
  have a: "\<exists>data. fst (make_api_request url params headers w) = Inr data"
    by (simp add: m x split: option.splits)
  have b: "fst (make_api_request url params headers w) = Inr (JObj [])"
    if "api_cache w ?k = None"
      and "\<forall>k<3. \<forall>d. net w (length (request_log w) + k) ?r \<noteq> Response_ok d"
  proof -
    have "res = Inr None"
      using retry_loop_exhausted [of "[0, 1, 2]" w ?r ?k] assms that(2) rl by auto
    then show ?thesis using that(1) by (simp add: m)
  qed
  show ?thesis using a b by blast
qed

text \<open>The theorem at a server that answers 500 to every attempt.\<close>

theorem C8_never_raises_witness:
  "always_status 500 0 \<lparr>req_url = ''u'', req_params = [], req_headers = []\<rparr> = HTTPError 500
   \<and> always_status 500 1 \<lparr>req_url = ''u'', req_params = [], req_headers = []\<rparr> = HTTPError 500
   \<and> always_status 500 2 \<lparr>req_url = ''u'', req_params = [], req_headers = []\<rparr> = HTTPError 500
   \<and> api_cache (new_world (always_status 500) no_faults) (KReq ''u'' (set [])) = None
   \<and> fst (make_api_request ''u'' [] [] (new_world (always_status 500) no_faults)) = Inr (JObj [])"
  using C8_never_raises_for_transport_failure
          [of "new_world (always_status 500) no_faults" "''u''" "[]" "[]"]
  by (simp add: new_world_def always_status_def)

text \<open>
  Two failures with status 500 and a success on the third attempt: the payload is
  returned (and cached) after sleeps of 1 and 2 seconds.
\<close>

lemma backoff_then_success:
  "make_api_request ''u'' [] [] (new_world (third_time_lucky data) no_faults) =
     (Inr data,
      (new_world (third_time_lucky data) no_faults)
        \<lparr>request_log := replicate 3 \<lparr>req_url = ''u'', req_params = [], req_headers = []\<rparr>,
         sleeps := [1, 2],
         api_cache := [KReq ''u'' {} \<mapsto> data]\<rparr>)"
  by (simp add: make_api_request_def http_get_def sleep_def new_world_def third_time_lucky_def numeral_3_eq_3)

text \<open>
  C6. Three attempts that all fail with status 500: the sleeps between the attempts are
  1 and 2 seconds, but the loop body sleeps once more, 4 seconds, after the third and
  last attempt, before the empty object is returned. The call blocks for 1 + 2 + 4
  seconds, not for 1 + 2.
\<close>

theorem C6_sleeps_after_last_attempt:
  "make_api_request ''u'' [] [] (new_world (always_status 500) no_faults) =
     (Inr (JObj []),
      (new_world (always_status 500) no_faults)
        \<lparr>request_log := replicate 3 \<lparr>req_url = ''u'', req_params = [], req_headers = []\<rparr>,
         sleeps := [1, 2, 4]\<rparr>)"
  by (simp add: make_api_request_def http_get_def sleep_def new_world_def always_status_def
      numeral_3_eq_3)

section \<open>Reasoning about statements\<close>

text \<open>How a sequence, a handler and the session operations end.\<close>

lemma bind_Inr:
  "bind m f w = (Inr y, w') \<longleftrightarrow> (\<exists>x w1. m w = (Inr x, w1) \<and> f x w1 = (Inr y, w'))"
  by (cases "m w") (auto simp: bind_def split: sum.splits)



lemma bind_known: "m w = (Inr x, w1) \<Longrightarrow> bind m f w = f x w1"
  by (simp add: bind_def)







lemma statement_Inr:
  "statement w = (Inr u, w') \<longleftrightarrow>
     \<not> faults (db w) (ops (db w)) \<and> w' = w\<lparr>db := (db w)\<lparr>ops := Suc (ops (db w))\<rparr>\<rparr>"
  by (auto simp: statement_def Let_def)


lemma flush_pending_Inr:
  "flush_pending w = (Inr u, w') \<longleftrightarrow>
     (\<exists>t. insert_all (pending (db w)) (txn (db w)) = Inr t
          \<and> w' = w\<lparr>db := (db w)\<lparr>txn := t, pending := []\<rparr>\<rparr>)"
  by (auto simp: flush_pending_def split: sum.splits)


lemma db_query_Inr:
  "db_query w = (Inr t, w') \<longleftrightarrow>
     \<not> faults (db w) (ops (db w))
     \<and> insert_all (pending (db w)) (txn (db w)) = Inr t
     \<and> w' = w\<lparr>db := (db w)\<lparr>ops := Suc (ops (db w)), txn := t, pending := []\<rparr>\<rparr>"
  by (auto simp: db_query_def bind_Inr statement_Inr flush_pending_Inr)






















section \<open>Properties of the reconciliation\<close>

text \<open>
  C1. The caller asks for \<open>Spiderman\<close>, issue 1, on an empty database; the catalog's
  first candidate is named \<open>Spider-Man\<close>. The first call succeeds and returns the new
  issue. The series was stored under the catalog's name, which does not contain
  \<open>Spiderman\<close>, so the second call with the same pair misses both local lookups, asks
  for the catalog's volumes again (the answer is still in the cache), tries to create
  the series again, runs into the unique cross-reference and returns \<^verbatim>\<open>None\<close>: not
  the same issue.
\<close>

theorem C1_second_call_returns_none:
  "fst (get_or_create_issue_from_comicvine ''Spiderman'' ''1''
         (new_world (services (JArr [])) no_faults)) = Inr (Some issue1)
   \<and> fst (get_or_create_issue_from_comicvine ''Spiderman'' ''1''
         (snd (get_or_create_issue_from_comicvine ''Spiderman'' ''1''
                (new_world (services (JArr [])) no_faults)))) = Inr None"
  by code_simp

text \<open>
  When the fast-path query finds an issue, the call returns it at once: no request is
  sent and nothing is committed.
\<close>

lemma fast_path_hit:
  assumes "query_Issue_by_title_number series_title issue_number w = (Inr (Some issue), w')"
  shows "get_or_create_issue_from_comicvine series_title issue_number w = (Inr (Some issue), w')
       \<and> request_log w' = request_log w \<and> committed (db w') = committed (db w)"
proof -
  have "get_or_create_issue_from_comicvine series_title issue_number w = (Inr (Some issue), w')"
    by (simp add: get_or_create_issue_from_comicvine_def try_except_def
        bind_known [of "query_Issue_by_title_number series_title issue_number" w, OF assms]
        ret_def)
  moreover from assms have "request_log w' = request_log w \<and> committed (db w') = committed (db w)"
    by (auto simp: query_Issue_by_title_number_def bind_Inr db_query_Inr ret_def)
  ultimately show ?thesis by simp
qed

text \<open>
  C2. Series creation on a database that does not hold the source \<open>Comic Vine\<close> yet,
  with a database error at statement 6, the commit that writes the cross-reference.
  \<open>get_or_create_source\<close> has committed in between (statement 4), and that commit took
  the flushed series with it: the rollback undoes the cross-reference only, and the
  database keeps a series without one.
\<close>

theorem C2_series_committed_without_xref:
  "fst (get_or_create_issue_from_comicvine ''Spider'' ''1''
         (new_world (services (JArr [])) (fault_at 6))) = Inr None
   \<and> series_tbl (committed (db (snd (get_or_create_issue_from_comicvine ''Spider'' ''1''
         (new_world (services (JArr [])) (fault_at 6)))))) =
       [\<lparr>Series_id = 1, Series_title = JStr ''Spider-Man'', Series_publisher = JNull,
         Series_start_year = None, Series_cover_url = JNull\<rparr>]
   \<and> source_xref_tbl (committed (db (snd (get_or_create_issue_from_comicvine ''Spider'' ''1''
         (new_world (services (JArr [])) (fault_at 6)))))) = []"
  by code_simp

text \<open>
  The issue sub-step asks for the source before it adds anything: the same error at its
  own last commit (statement 10) leaves neither the issue nor its cross-reference.
\<close>

lemma issue_creation_rolled_back:
  "fst (get_or_create_issue_from_comicvine ''Spider'' ''1''
         (new_world (services (JArr [])) (fault_at 10))) = Inr None
   \<and> issue_tbl (committed (db (snd (get_or_create_issue_from_comicvine ''Spider'' ''1''
         (new_world (services (JArr [])) (fault_at 10)))))) = []
   \<and> map SourceXref_entity_type
       (source_xref_tbl (committed (db (snd (get_or_create_issue_from_comicvine ''Spider'' ''1''
         (new_world (services (JArr [])) (fault_at 10))))))) = [''series'']"
  by code_simp

text \<open>
  The filter \<^verbatim>\<open>ilike(f"%{series_title}%")\<close> is a case-insensitive substring test as
  long as the title holds neither \<^verbatim>\<open>%\<close> nor \<^verbatim>\<open>_\<close>.
\<close>

lemma like_no_wildcards:
  "CHR ''%'' \<notin> set p \<Longrightarrow> CHR ''_'' \<notin> set p \<Longrightarrow> like p s \<longleftrightarrow> s = p"
proof (induction p arbitrary: s)
  case Nil
  then show ?case by simp
next
  case (Cons a p)
  then show ?case by (cases s) auto
qed

lemma like_percent:
  "like (CHR ''%'' # p) s \<longleftrightarrow> (\<exists>pre post. s = pre @ post \<and> like p post)"
proof (induction s)
  case Nil
  then show ?case by simp
next
  case (Cons c s)
  show ?case
  proof
    assume "like (CHR ''%'' # p) (c # s)"
    then consider "like p (c # s)" | "like (CHR ''%'' # p) s" by auto
    then show "\<exists>pre post. c # s = pre @ post \<and> like p post"
    proof cases
      case 1
      then have "c # s = [] @ (c # s) \<and> like p (c # s)" by simp
      then show ?thesis by blast
    next
      case 2
      then obtain pre post where "s = pre @ post" "like p post" using Cons.IH by blast
      then have "c # s = (c # pre) @ post \<and> like p post" by simp
      then show ?thesis by blast
    qed
  next
    assume "\<exists>pre post. c # s = pre @ post \<and> like p post"
    then obtain pre post where pp: "c # s = pre @ post" "like p post" by blast
    show "like (CHR ''%'' # p) (c # s)"
    proof (cases pre)
      case Nil
      with pp have "like p (c # s)" by simp
      then show ?thesis by simp
    next
      case (Cons a pre')
      with pp have "s = pre' @ post" by simp
      with pp(2) Cons.IH have "like (CHR ''%'' # p) s" by blast
      then show ?thesis by simp
    qed
  qed
qed

lemma like_prefix:
  "CHR ''%'' \<notin> set p \<Longrightarrow> CHR ''_'' \<notin> set p \<Longrightarrow>
   like (p @ ''%'') s \<longleftrightarrow> (\<exists>post. s = p @ post)"
proof (induction p arbitrary: s)
  case Nil
  have "like ''%'' s" by (induction s) auto
  then show ?case by simp
next
  case (Cons a p)
  then show ?case by (cases s) auto
qed

lemma like_contains:
  assumes "CHR ''%'' \<notin> set p" "CHR ''_'' \<notin> set p"
  shows "like (''%'' @ p @ ''%'') s \<longleftrightarrow> (\<exists>pre post. s = pre @ p @ post)"
  using like_percent [of "p @ ''%''" s] like_prefix [OF assms] by auto

lemma lower_wildcard:
  "lower c = CHR ''%'' \<longleftrightarrow> c = CHR ''%''" "lower c = CHR ''_'' \<longleftrightarrow> c = CHR ''_''"
proof -
  have a: "of_char (lower c) = (if 65 \<le> (of_char c :: nat) \<and> (of_char c :: nat) \<le> 90
      then of_char c + 32 else (of_char c :: nat))"
    by (simp add: lower_def Let_def)
  have p: "(of_char (CHR ''%'') :: nat) = 37" and u: "(of_char (CHR ''_'') :: nat) = 95"
    by simp_all
  have inj: "\<And>x y :: char. x = y \<longleftrightarrow> (of_char x :: nat) = of_char y"
    by simp
  show "lower c = CHR ''%'' \<longleftrightarrow> c = CHR ''%''"
    unfolding inj [of "lower c"] inj [of c] a p by auto
  show "lower c = CHR ''_'' \<longleftrightarrow> c = CHR ''_''"
    unfolding inj [of "lower c"] inj [of c] a u by auto
qed

lemma map_lower_wildcards:
  "CHR ''%'' \<in> set (map lower t) \<longleftrightarrow> CHR ''%'' \<in> set t"
  "CHR ''_'' \<in> set (map lower t) \<longleftrightarrow> CHR ''_'' \<in> set t"
  using lower_wildcard by (induction t) (auto simp: eq_commute [of "CHR ''%''"] eq_commute [of "CHR ''_''"])

lemma ilike_substring:
  assumes "CHR ''%'' \<notin> set t" "CHR ''_'' \<notin> set t"
  shows "ilike (JStr s) (''%'' @ t @ ''%'') \<longleftrightarrow>
         (\<exists>pre post. map lower s = pre @ map lower t @ post)"
proof -
  have l: "lower CHR ''%'' = CHR ''%''" using lower_wildcard(1) [of "CHR ''%''"] by simp
  have "ilike (JStr s) (''%'' @ t @ ''%'') = like (''%'' @ map lower t @ ''%'') (map lower s)"
    by (simp add: l)
  also have "\<dots> \<longleftrightarrow> (\<exists>pre post. map lower s = pre @ map lower t @ post)"
  proof (rule like_contains)
    show "CHR ''%'' \<notin> set (map lower t)" using assms(1) map_lower_wildcards(1) by blast
    show "CHR ''_'' \<notin> set (map lower t)" using assms(2) map_lower_wildcards(2) by blast
  qed
  finally show ?thesis .
qed








section \<open>Properties of the pricing ingestion\<close>

text \<open>
  C3. Pricing for the reconciled issue, with a database error at statement 11, the
  first statement of the valuation sub-flow (the lookup of the source \<open>GoCollect\<close>).
  That lookup stands before the \<^verbatim>\<open>try\<close> of \<^verbatim>\<open>_update_gocollect_pricing\<close>, and
  \<open>get_or_create_source\<close> raises the error again after its rollback: it leaves
  \<open>update_pricing_for_issue\<close>, and the listings sub-flow does not run (no request is
  sent to the marketplace).
\<close>

theorem C3_valuation_db_error_escapes:
  "fst (update_pricing_for_issue issue1 8 (reconciled one_listing (fault_at 11)))
     = Inl OperationalError
   \<and> request_log (snd (update_pricing_for_issue issue1 8 (reconciled one_listing (fault_at 11))))
     = request_log (reconciled one_listing (fault_at 11))
   \<and> market_listing_tbl (committed (db (snd
       (update_pricing_for_issue issue1 8 (reconciled one_listing (fault_at 11)))))) = []"
  by code_simp

text \<open>Without the error the listings sub-flow sends its request and stores the listing.\<close>

lemma pricing_without_db_error:
  "fst (update_pricing_for_issue issue1 8 (reconciled one_listing no_faults)) = Inr ()
   \<and> length (request_log (snd (update_pricing_for_issue issue1 8
       (reconciled one_listing no_faults))))
     = Suc (length (request_log (reconciled one_listing no_faults)))
   \<and> map MarketListing_listing_id (market_listing_tbl (committed (db (snd
       (update_pricing_for_issue issue1 8 (reconciled one_listing no_faults)))))) = [JStr ''i1'']"
  by code_simp










end
